theory Spec2Isabelle
  imports Complex_Main "HOL-Library.Sublist"
begin

section \<open>Numeric cells\<close>

text \<open>
  A numeric cell of a pandas column is a float64: a finite number, one of the two
  infinities, or NaN (which is also how a missing cell is stored). The finite values are
  modelled as exact reals: the rounding error of IEEE arithmetic and the sign of zero are
  not modelled. Comparisons with NaN are false, as in numpy.
\<close>

datatype fnum = Fin real | PInf | NInf | NaN

fun isna :: "fnum \<Rightarrow> bool" where
  "isna NaN = True"
| "isna _ = False"

fun fillna :: "real \<Rightarrow> fnum \<Rightarrow> fnum" where
  "fillna d NaN = Fin d"
| "fillna d x = x"

text \<open>\<^verbatim>\<open>.replace([np.inf, -np.inf], np.nan)\<close>\<close>

fun replace_inf :: "fnum \<Rightarrow> fnum" where
  "replace_inf PInf = NaN"
| "replace_inf NInf = NaN"
| "replace_inf x = x"

fun fneg :: "fnum \<Rightarrow> fnum" where
  "fneg (Fin a) = Fin (- a)"
| "fneg PInf = NInf"
| "fneg NInf = PInf"
| "fneg NaN = NaN"

fun fadd :: "fnum \<Rightarrow> fnum \<Rightarrow> fnum" where
  "fadd NaN _ = NaN"
| "fadd _ NaN = NaN"
| "fadd (Fin a) (Fin b) = Fin (a + b)"
| "fadd (Fin a) y = y"
| "fadd x (Fin b) = x"
| "fadd PInf PInf = PInf"
| "fadd NInf NInf = NInf"
| "fadd PInf NInf = NaN"
| "fadd NInf PInf = NaN"

definition fsub :: "fnum \<Rightarrow> fnum \<Rightarrow> fnum" where
  "fsub x y = fadd x (fneg y)"

text \<open>The sign of an infinite product or quotient: \<open>True\<close> is positive.\<close>

definition signed_inf :: "bool \<Rightarrow> fnum" where
  "signed_inf pos = (if pos then PInf else NInf)"

fun fmul :: "fnum \<Rightarrow> fnum \<Rightarrow> fnum" where
  "fmul NaN _ = NaN"
| "fmul _ NaN = NaN"
| "fmul (Fin a) (Fin b) = Fin (a * b)"
| "fmul (Fin a) PInf = (if a = 0 then NaN else signed_inf (0 < a))"
| "fmul (Fin a) NInf = (if a = 0 then NaN else signed_inf (a < 0))"
| "fmul PInf (Fin b) = (if b = 0 then NaN else signed_inf (0 < b))"
| "fmul NInf (Fin b) = (if b = 0 then NaN else signed_inf (b < 0))"
| "fmul PInf PInf = PInf"
| "fmul NInf NInf = PInf"
| "fmul PInf NInf = NInf"
| "fmul NInf PInf = NInf"

text \<open>
  Division of two columns never raises: a zero denominator gives an infinity, or NaN for
  \<open>0 / 0\<close>.
\<close>

fun fdiv :: "fnum \<Rightarrow> fnum \<Rightarrow> fnum" where
  "fdiv NaN _ = NaN"
| "fdiv _ NaN = NaN"
| "fdiv (Fin a) (Fin b) =
     (if b = 0 then (if a = 0 then NaN else signed_inf (0 < a)) else Fin (a / b))"
| "fdiv (Fin a) PInf = Fin 0"
| "fdiv (Fin a) NInf = Fin 0"
| "fdiv PInf (Fin b) = signed_inf (0 \<le> b)"
| "fdiv NInf (Fin b) = signed_inf (b < 0)"
| "fdiv PInf PInf = NaN"
| "fdiv PInf NInf = NaN"
| "fdiv NInf PInf = NaN"
| "fdiv NInf NInf = NaN"

fun flt :: "fnum \<Rightarrow> fnum \<Rightarrow> bool" where
  "flt NaN _ = False"
| "flt _ NaN = False"
| "flt (Fin a) (Fin b) = (a < b)"
| "flt (Fin a) PInf = True"
| "flt (Fin a) NInf = False"
| "flt PInf _ = False"
| "flt NInf NInf = False"
| "flt NInf _ = True"

fun fle :: "fnum \<Rightarrow> fnum \<Rightarrow> bool" where
  "fle NaN _ = False"
| "fle _ NaN = False"
| "fle (Fin a) (Fin b) = (a \<le> b)"
| "fle (Fin a) PInf = True"
| "fle (Fin a) NInf = False"
| "fle PInf PInf = True"
| "fle PInf _ = False"
| "fle NInf _ = True"

text \<open>\<^verbatim>\<open>.clip(lower=0)\<close>: NaN stays NaN.\<close>

fun clip_lower0 :: "fnum \<Rightarrow> fnum" where
  "clip_lower0 (Fin a) = Fin (max 0 a)"
| "clip_lower0 PInf = PInf"
| "clip_lower0 NInf = Fin 0"
| "clip_lower0 NaN = NaN"

text \<open>numpy rounds a tie to the even neighbour.\<close>

definition round_half_even :: "real \<Rightarrow> int" where
  "round_half_even x =
     (let f = \<lfloor>x\<rfloor>; d = x - of_int f
      in if d < 1 / 2 then f else if 1 / 2 < d then f + 1 else if even f then f else f + 1)"

text \<open>\<^verbatim>\<open>.round(0)\<close> and \<^verbatim>\<open>.round(2)\<close> on a float column.\<close>

fun fround :: "fnum \<Rightarrow> fnum" where
  "fround (Fin a) = Fin (of_int (round_half_even a))"
| "fround x = x"

fun fround2 :: "fnum \<Rightarrow> fnum" where
  "fround2 (Fin a) = Fin (of_int (round_half_even (a * 100)) / 100)"
| "fround2 x = x"

text \<open>
  \<^verbatim>\<open>.astype(int)\<close> raises on NaN and on the infinities; a finite value is truncated
  towards zero and cast to a 64-bit integer. A value outside the 64-bit range does not
  raise: the cast gives the least 64-bit integer (as on x86-64).
\<close>

definition trunc :: "real \<Rightarrow> int" where
  "trunc x = (if 0 \<le> x then \<lfloor>x\<rfloor> else \<lceil>x\<rceil>)"

definition int64_cast :: "int \<Rightarrow> int" where
  "int64_cast k = (if - (2 ^ 63) \<le> k \<and> k < 2 ^ 63 then k else - (2 ^ 63))"

text \<open>Arithmetic on a 64-bit integer column wraps around.\<close>

definition int64_wrap :: "int \<Rightarrow> int" where
  "int64_wrap k = (k + 2 ^ 63) mod 2 ^ 64 - 2 ^ 63"

fun astype_int :: "fnum \<Rightarrow> int option" where
  "astype_int (Fin a) = Some (int64_cast (trunc a))"
| "astype_int _ = None"

section \<open>Supplier scorer\<close>

record supplier =
  supplier_id :: string
  supplier_name :: string
  total_deliveries :: fnum
  on_time_deliveries :: fnum
  avg_lead_time_days :: fnum
  price_index :: fnum
  priority :: string
  is_backup :: string

datatype band = Risk | Watch | Reliable

text \<open>The labels of the three categories.\<close>

fun label :: "band \<Rightarrow> string" where
  "label Risk = ''Risk (<75%)''"
| "label Watch = ''Watch (75-89%)''"
| "label Reliable = ''Reliable (90%+)''"

record scored = supplier +
  reliability_pct :: fnum
  reliability_band :: "band option"

text \<open>
  \<^verbatim>\<open>(on_time_deliveries / total_deliveries).replace([inf, -inf], nan).fillna(0.0) * 100\<close>
\<close>

definition pct_of :: "supplier \<Rightarrow> fnum" where
  "pct_of s =
     fmul (fillna 0 (replace_inf (fdiv (on_time_deliveries s) (total_deliveries s)))) (Fin 100)"

text \<open>
  \<^verbatim>\<open>pd.cut(x, bins=[-0.1, 74.99, 89.99, 100], labels=[...])\<close>: the intervals are open on
  the left and closed on the right, and a value in none of them gets no label.
\<close>

definition cut :: "fnum \<Rightarrow> band option" where
  "cut x =
     (if flt (Fin (- 0.1)) x \<and> fle x (Fin 74.99) then Some Risk
      else if flt (Fin 74.99) x \<and> fle x (Fin 89.99) then Some Watch
      else if flt (Fin 89.99) x \<and> fle x (Fin 100) then Some Reliable
      else None)"

text \<open>The supplier row with its two new columns.\<close>

definition score :: "supplier \<Rightarrow> scored" where
  "score s =
     \<lparr>supplier_id = supplier_id s, supplier_name = supplier_name s,
      total_deliveries = total_deliveries s, on_time_deliveries = on_time_deliveries s,
      avg_lead_time_days = avg_lead_time_days s, price_index = price_index s,
      priority = priority s, is_backup = is_backup s,
      reliability_pct = pct_of s, reliability_band = cut (pct_of s)\<rparr>"

section \<open>Lookup maps\<close>

text \<open>\<^verbatim>\<open>dict(zip(keys, values))\<close>: a later pair overwrites an earlier one with the same key.\<close>

definition dict_zip :: "'k list \<Rightarrow> 'v list \<Rightarrow> ('k \<rightharpoonup> 'v)" where
  "dict_zip ks vs = foldl (\<lambda>m (k, v). m(k \<mapsto> v)) Map.empty (zip ks vs)"

text \<open>\<^verbatim>\<open>Series.map(d)\<close> on one cell: a key that is not in the dictionary gives NaN.\<close>

definition series_map :: "(string \<rightharpoonup> fnum) \<Rightarrow> string \<Rightarrow> fnum" where
  "series_map d k = (case d k of None \<Rightarrow> NaN | Some v \<Rightarrow> v)"

section \<open>Inventory health engine\<close>

record inventory =
  material :: string
  current_stock :: fnum
  safety_stock :: fnum
  avg_daily_usage :: fnum
  primary_supplier :: string
  backup_supplier :: string
  lead_time_days :: fnum

record inv_row = inventory +
  primary_reliability :: fnum
  backup_reliability :: fnum
  days_of_cover :: fnum
  reorder_point :: fnum
  reorder_qty :: int
  stock_risk :: string
  supply_risk :: string
  overall_risk :: string

text \<open>
  The columns are computed one after the other, each row on its own. Each definition
  below is one assignment of the source, on one row.
\<close>

definition primary_reliability_col :: "(string \<rightharpoonup> fnum) \<Rightarrow> inventory \<Rightarrow> fnum" where
  "primary_reliability_col rel_map i = fillna 0 (series_map rel_map (primary_supplier i))"

definition backup_reliability_col :: "(string \<rightharpoonup> fnum) \<Rightarrow> inventory \<Rightarrow> fnum" where
  "backup_reliability_col rel_map i = fillna 0 (series_map rel_map (backup_supplier i))"

text \<open>
  \<^verbatim>\<open>np.where(lead.isna() | (lead <= 0), primary_supplier.map(lt_map).fillna(5), lead)\<close>
\<close>

definition lead_time_days_col :: "(string \<rightharpoonup> fnum) \<Rightarrow> inventory \<Rightarrow> fnum" where
  "lead_time_days_col lt_map i =
     (if isna (lead_time_days i) \<or> fle (lead_time_days i) (Fin 0)
      then fillna 5 (series_map lt_map (primary_supplier i))
      else lead_time_days i)"

definition days_of_cover_col :: "inventory \<Rightarrow> fnum" where
  "days_of_cover_col i = fillna 0 (replace_inf (fdiv (current_stock i) (avg_daily_usage i)))"

text \<open>
  \<^verbatim>\<open>safety_stock + lead_time_days * avg_daily_usage\<close> (\<^verbatim>\<open>pd.to_numeric\<close> leaves a
  numeric column as it is), then \<^verbatim>\<open>inv["reorder_point"].fillna(0, inplace=True)\<close>.
  Whether that in-place call on a selected column reaches the table depends on the pandas
  version: it does without copy-on-write, and it leaves the table unchanged with
  copy-on-write (pandas 3). The switch \<open>cow\<close> says which; the same holds for
  \<^verbatim>\<open>current_stock\<close>.
\<close>

definition reorder_point_col :: "bool \<Rightarrow> (string \<rightharpoonup> fnum) \<Rightarrow> inventory \<Rightarrow> fnum" where
  "reorder_point_col cow lt_map i =
     (let rp = fadd (safety_stock i) (fmul (lead_time_days_col lt_map i) (avg_daily_usage i))
      in if cow then rp else fillna 0 rp)"

definition current_stock_col :: "bool \<Rightarrow> inventory \<Rightarrow> fnum" where
  "current_stock_col cow i = (if cow then current_stock i else fillna 0 (current_stock i))"

text \<open>
  \<^verbatim>\<open>(reorder_point - current_stock).clip(lower=0).round(0).astype(int)\<close>: the cast raises
  when the value is not finite.
\<close>

definition reorder_qty_col :: "fnum \<Rightarrow> fnum \<Rightarrow> int option" where
  "reorder_qty_col rp cs = astype_int (fround (clip_lower0 (fsub rp cs)))"

definition stock_risk_col :: "fnum \<Rightarrow> fnum \<Rightarrow> string" where
  "stock_risk_col cs ss = (if flt cs ss then ''Low Stock'' else ''OK'')"

definition supply_risk_col :: "fnum \<Rightarrow> string" where
  "supply_risk_col pr = (if flt pr (Fin 75) then ''Unreliable Supplier'' else ''OK'')"

text \<open>The two labels start with a warning sign and a check mark, here as UTF-8 bytes.\<close>

definition label_risk :: string where
  "label_risk = [CHR 0xE2, CHR 0x9A, CHR 0xA0] @ '' Risk''"

definition label_ok :: string where
  "label_ok = [CHR 0xE2, CHR 0x9C, CHR 0x85] @ '' OK''"

definition overall_risk_col :: "string \<Rightarrow> string \<Rightarrow> string" where
  "overall_risk_col sr pr = (if sr \<noteq> ''OK'' \<or> pr \<noteq> ''OK'' then label_risk else label_ok)"

text \<open>One inventory row with all its derived columns; \<open>None\<close> when the integer cast raises.\<close>

definition health ::
  "bool \<Rightarrow> (string \<rightharpoonup> fnum) \<Rightarrow> (string \<rightharpoonup> fnum) \<Rightarrow> inventory \<Rightarrow> inv_row option" where
  "health cow rel_map lt_map i =
     (let pr = primary_reliability_col rel_map i;
          br = backup_reliability_col rel_map i;
          lt = lead_time_days_col lt_map i;
          rp = reorder_point_col cow lt_map i;
          cs = current_stock_col cow i;
          sr = stock_risk_col cs (safety_stock i);
          ur = supply_risk_col pr
      in case reorder_qty_col rp cs of
           None \<Rightarrow> None
         | Some q \<Rightarrow>
             Some \<lparr>material = material i, current_stock = cs, safety_stock = safety_stock i,
                   avg_daily_usage = avg_daily_usage i, primary_supplier = primary_supplier i,
                   backup_supplier = backup_supplier i, lead_time_days = lt,
                   primary_reliability = pr, backup_reliability = br,
                   days_of_cover = days_of_cover_col i, reorder_point = rp, reorder_qty = q,
                   stock_risk = sr, supply_risk = ur, overall_risk = overall_risk_col sr ur\<rparr>)"

section \<open>Recommendation text\<close>

text \<open>\<^verbatim>\<open>str\<close> of an integer.\<close>

fun show_nat :: "nat \<Rightarrow> string" where
  "show_nat n =
     (if n < 10 then [char_of (48 + n)] else show_nat (n div 10) @ [char_of (48 + n mod 10)])"

declare show_nat.simps [simp del]

definition show_int :: "int \<Rightarrow> string" where
  "show_int k = (if k < 0 then ''-'' @ show_nat (nat (- k)) else show_nat (nat k))"

text \<open>\<^verbatim>\<open>sep.join(xs)\<close>\<close>

fun join :: "string \<Rightarrow> string list \<Rightarrow> string" where
  "join sep [] = []"
| "join sep [x] = x"
| "join sep (x # y # ys) = x @ sep @ join sep (y # ys)"

text \<open>
  The three checks of \<^verbatim>\<open>recommend\<close>, each appending at most one sentence. The two float
  formats of the third sentence (\<^verbatim>\<open>{:.1f}\<close> and the plain \<^verbatim>\<open>{}\<close>) are Python's own
  and are parameters here.
\<close>

definition reorder_sentence :: "int \<Rightarrow> string \<Rightarrow> string \<Rightarrow> string" where
  "reorder_sentence qty mat target =
     ''Reorder '' @ show_int qty @ '' units of '' @ mat @ '' from '' @ target @ ''.''"

definition reorder_check :: "inv_row \<Rightarrow> string list" where
  "reorder_check row =
     (if flt (current_stock row) (reorder_point row)
      then (let qty = reorder_qty row;
                target = (if flt (primary_reliability row) (backup_reliability row)
                          then backup_supplier row @ '' (backup)''
                          else primary_supplier row)
            in [reorder_sentence qty (material row) target])
      else [])"

definition reliability_check :: "inv_row \<Rightarrow> string list" where
  "reliability_check row =
     (if flt (primary_reliability row) (Fin 75)
      then (if flt (primary_reliability row) (backup_reliability row)
            then [''Switch supplier for '' @ material row @ '' to '' @ backup_supplier row
                    @ '' (more reliable).'']
            else [''Keep primary for '' @ material row
                    @ '' but increase safety stock temporarily.''])
      else [])"

text \<open>
  \<^verbatim>\<open>{:.1f}\<close> on the exact value of a cell, ties to even: an instance of the format
  parameters, for the examples.
\<close>

fun fmt_1f :: "fnum \<Rightarrow> string" where
  "fmt_1f (Fin a) =
     (let n = nat (round_half_even (\<bar>a\<bar> * 10))
      in (if a < 0 then ''-'' else []) @ show_nat (n div 10) @ ''.'' @ show_nat (n mod 10))"
| "fmt_1f PInf = ''inf''"
| "fmt_1f NInf = ''-inf''"
| "fmt_1f NaN = ''nan''"

definition cover_check :: "(fnum \<Rightarrow> string) \<Rightarrow> (fnum \<Rightarrow> string) \<Rightarrow> inv_row \<Rightarrow> string list" where
  "cover_check fmt1 fmt row =
     (if flt (days_of_cover row) (lead_time_days row)
      then [''Increase safety stock for '' @ material row @ '' (days of cover ''
              @ fmt1 (days_of_cover row) @ '' < lead time '' @ fmt (lead_time_days row) @ '').'']
      else [])"

definition recs :: "(fnum \<Rightarrow> string) \<Rightarrow> (fnum \<Rightarrow> string) \<Rightarrow> inv_row \<Rightarrow> string list" where
  "recs fmt1 fmt row = reorder_check row @ reliability_check row @ cover_check fmt1 fmt row"

definition recommend :: "(fnum \<Rightarrow> string) \<Rightarrow> (fnum \<Rightarrow> string) \<Rightarrow> inv_row \<Rightarrow> string" where
  "recommend fmt1 fmt row =
     (if recs fmt1 fmt row = [] then ''No action needed.'' else join '' '' (recs fmt1 fmt row))"

section \<open>The run\<close>

text \<open>A table: its column names and its rows.\<close>

record 'r frame =
  columns :: "string list"
  rows :: "'r list"

definition required_sup_cols :: "string list" where
  "required_sup_cols =
     [''supplier_id'', ''supplier_name'', ''total_deliveries'', ''on_time_deliveries'',
      ''avg_lead_time_days'', ''price_index'', ''priority'', ''is_backup'']"

definition required_inv_cols :: "string list" where
  "required_inv_cols =
     [''material'', ''current_stock'', ''safety_stock'', ''avg_daily_usage'',
      ''primary_supplier'', ''backup_supplier'', ''lead_time_days'']"

text \<open>
  A run ends early in one of two ways: \<^verbatim>\<open>st.error(msg); st.stop()\<close> on a missing
  column, or the exception of the integer cast.
\<close>

datatype error = Stop string | IntCastingNaNError

text \<open>The two simulations of the sidebar.\<close>

definition simulate_delay :: "supplier \<Rightarrow> supplier" where
  "simulate_delay s =
     (if supplier_name s = ''Supplier B''
      then s\<lparr>on_time_deliveries := clip_lower0 (fsub (on_time_deliveries s) (Fin 2))\<rparr>
      else s)"

definition simulate_demand_spike :: "inventory \<Rightarrow> inventory" where
  "simulate_demand_spike i =
     (if material i = ''Flour''
      then i\<lparr>avg_daily_usage := fround2 (fmul (avg_daily_usage i) (Fin 1.3))\<rparr>
      else i)"

text \<open>Column sum and mean; the mean of an empty column is NaN.\<close>

definition fsum :: "fnum list \<Rightarrow> fnum" where
  "fsum xs = foldl fadd (Fin 0) xs"

definition fmean :: "fnum list \<Rightarrow> fnum" where
  "fmean xs = fdiv (fsum xs) (Fin (real (length xs)))"

record result =
  out_suppliers :: "scored list"
  out_inventory :: "inv_row list"
  out_recommendation :: "string list"
  kpi_suppliers :: nat
  kpi_avg_reliability :: fnum
  kpi_at_risk :: nat
  kpi_total_reorder :: int

text \<open>The validation of the two tables: the error of a run that stops there.\<close>

definition validate :: "'a frame \<Rightarrow> 'b frame \<Rightarrow> error option" where
  "validate suppliers inventory =
     (if \<not> set required_sup_cols \<subseteq> set (columns suppliers)
         \<or> \<not> set required_inv_cols \<subseteq> set (columns inventory)
      then Some (Stop ''Please provide valid CSVs with required columns (see sidebar).'')
      else None)"

definition rel_map :: "scored list \<Rightarrow> (string \<rightharpoonup> fnum)" where
  "rel_map suppliers = dict_zip (map supplier_name suppliers) (map reliability_pct suppliers)"

definition lt_map :: "scored list \<Rightarrow> (string \<rightharpoonup> fnum)" where
  "lt_map suppliers = dict_zip (map supplier_name suppliers) (map avg_lead_time_days suppliers)"

text \<open>
  The script from the validation on, under either pandas behaviour (\<open>cow\<close>).
  \<^verbatim>\<open>astype(int)\<close> works on the whole column, so one row that cannot be cast ends the
  run.
\<close>

definition run ::
  "bool \<Rightarrow> bool \<Rightarrow> bool \<Rightarrow> (fnum \<Rightarrow> string) \<Rightarrow> (fnum \<Rightarrow> string) \<Rightarrow> supplier frame
     \<Rightarrow> inventory frame \<Rightarrow> error + result" where
  "run cow sim_delay sim_demand_spike fmt1 fmt suppliers inventory =
     (case validate suppliers inventory of
        Some e \<Rightarrow> Inl e
      | None \<Rightarrow>
        (let sup = (if sim_delay then map simulate_delay (rows suppliers) else rows suppliers);
             inv = (if sim_demand_spike then map simulate_demand_spike (rows inventory)
                    else rows inventory);
             scored = map score sup
         in case those (map (health cow (rel_map scored) (lt_map scored)) inv) of
              None \<Rightarrow> Inl IntCastingNaNError
            | Some out \<Rightarrow>
                Inr \<lparr>out_suppliers = scored, out_inventory = out,
                     out_recommendation = map (recommend fmt1 fmt) out,
                     kpi_suppliers = length scored,
                     kpi_avg_reliability = fmean (map reliability_pct scored),
                     kpi_at_risk = length (filter (\<lambda>r. overall_risk r \<noteq> label_ok) out),
                     kpi_total_reorder = int64_wrap (sum_list (map reorder_qty out))\<rparr>))"

text \<open>The required columns that a table lacks.\<close>

definition missing_cols :: "string list \<Rightarrow> 'r frame \<Rightarrow> string list" where
  "missing_cols req t = filter (\<lambda>c. c \<notin> set (columns t)) req"

section \<open>The specification's formulas\<close>

text \<open>
  A delivery count of the data model: a non-negative number, or a missing cell.
\<close>

definition nonneg :: "fnum \<Rightarrow> bool" where
  "nonneg x = (isna x \<or> fle (Fin 0) x)"

fun not_inf :: "fnum \<Rightarrow> bool" where
  "not_inf PInf = False"
| "not_inf NInf = False"
| "not_inf _ = True"

fun is_fin :: "fnum \<Rightarrow> bool" where
  "is_fin (Fin a) = True"
| "is_fin _ = False"

text \<open>
  An inventory row whose stock, safety stock and usage are finite numbers, whose own lead
  time is finite or missing, and whose primary supplier has no infinite average lead
  time.
\<close>

definition finite_cells :: "(string \<rightharpoonup> fnum) \<Rightarrow> inventory \<Rightarrow> bool" where
  "finite_cells lm i =
     (is_fin (current_stock i) \<and> is_fin (safety_stock i) \<and> is_fin (avg_daily_usage i)
      \<and> not_inf (lead_time_days i) \<and> not_inf (series_map lm (primary_supplier i)))"

text \<open>The reorder quantity in the specification's words: max(0, round(reorder_point - current_stock)).\<close>

definition spec_reorder_qty :: "real \<Rightarrow> real \<Rightarrow> int" where
  "spec_reorder_qty rp cs = max 0 (round_half_even (rp - cs))"

text \<open>
  The lead time in the specification's words: the record's own value if present and
  positive, otherwise the primary supplier's average from the map, otherwise 5.
\<close>

definition spec_lead_time :: "fnum \<Rightarrow> fnum option \<Rightarrow> fnum" where
  "spec_lead_time own avg =
     (if flt (Fin 0) own then own
      else (case avg of None \<Rightarrow> Fin 5 | Some v \<Rightarrow> (if isna v then Fin 5 else v)))"

section \<open>Example tables\<close>

definition supplier_row :: "string \<Rightarrow> string \<Rightarrow> real \<Rightarrow> real \<Rightarrow> real \<Rightarrow> supplier" where
  "supplier_row sid name deliveries on_time lead =
     \<lparr>supplier_id = sid, supplier_name = name, total_deliveries = Fin deliveries,
      on_time_deliveries = Fin on_time, avg_lead_time_days = Fin lead, price_index = Fin 1,
      priority = ''1'', is_backup = ''False''\<rparr>"

definition supplier_a :: supplier where
  "supplier_a = supplier_row ''S1'' ''Supplier A'' 40 38 4"

definition supplier_b :: supplier where
  "supplier_b = supplier_row ''S2'' ''Supplier B'' 20 18 2"

definition supplier_c :: supplier where
  "supplier_c = supplier_row ''S3'' ''Supplier C'' 20 10 6"

definition over_delivered :: supplier where
  "over_delivered = supplier_row ''S4'' ''Supplier D'' 20 30 3"

definition negative_count :: supplier where
  "negative_count = supplier_row ''S6'' ''Supplier F'' 20 (- 1) 3"

definition idle_supplier :: supplier where
  "idle_supplier = supplier_row ''S5'' ''Supplier E'' 0 0 3"

definition roster :: "scored list" where
  "roster = map score [supplier_a, supplier_b, supplier_c]"

definition inventory_row :: "string \<Rightarrow> real \<Rightarrow> real \<Rightarrow> real \<Rightarrow> string \<Rightarrow> string \<Rightarrow> fnum \<Rightarrow> inventory" where
  "inventory_row mat stock safety usage prim backup lead =
     \<lparr>material = mat, current_stock = Fin stock, safety_stock = Fin safety,
      avg_daily_usage = Fin usage, primary_supplier = prim, backup_supplier = backup,
      lead_time_days = lead\<rparr>"

definition flour :: inventory where
  "flour = inventory_row ''Flour'' 50 20 10 ''Supplier A'' ''Supplier B'' (Fin 3)"

definition flour_short :: inventory where
  "flour_short = inventory_row ''Flour'' 49.8 20 10 ''Supplier A'' ''Supplier B'' (Fin 3)"

definition sugar :: inventory where
  "sugar = inventory_row ''Sugar'' 10 15 5 ''Supplier C'' ''Supplier B'' NaN"

definition yeast :: inventory where
  "yeast = inventory_row ''Yeast'' 5 2 1 ''Supplier Z'' ''Supplier A'' (Fin 0)"

definition salt :: inventory where
  "salt =
     inventory_row ''Salt'' 0 10000000000000000000 0 ''Supplier A'' ''Supplier B'' (Fin 3)"

definition no_id_table :: "supplier frame" where
  "no_id_table = \<lparr>columns = tl required_sup_cols, rows = []\<rparr>"

definition no_name_table :: "supplier frame" where
  "no_name_table = \<lparr>columns = ''supplier_id'' # tl (tl required_sup_cols), rows = []\<rparr>"

definition inventory_table :: "inventory frame" where
  "inventory_table = \<lparr>columns = required_inv_cols, rows = [flour, sugar, yeast]\<rparr>"

section \<open>Facts about the numeric cells\<close>

lemma fillna_isna: "fillna d x = (if isna x then Fin d else x)"
  by (cases x) simp_all

lemma trunc_of_int [simp]: "trunc (of_int k) = k"
  by (simp add: trunc_def)

lemma trunc_zero [simp]: "trunc 0 = 0"
  by (simp add: trunc_def)

lemma round_half_even_nonneg: "0 \<le> x \<Longrightarrow> 0 \<le> round_half_even x"
  by (auto simp: round_half_even_def Let_def)

lemma round_half_even_nonpos: "x \<le> 0 \<Longrightarrow> round_half_even x \<le> 0"
  unfolding round_half_even_def Let_def by (auto; linarith)

lemma round_half_even_zero [simp]: "round_half_even 0 = 0"
  by (simp add: round_half_even_def)

lemma round_half_even_small:
  assumes "0 \<le> x" and "x \<le> 1 / 2"
  shows "round_half_even x = 0"
proof -
  from assms have "\<lfloor>x\<rfloor> = 0" by (simp add: floor_eq_iff)
  then show ?thesis using assms by (simp add: round_half_even_def)
qed

lemma fdiv_nonneg: "nonneg x \<Longrightarrow> nonneg y \<Longrightarrow> fdiv x y = Fin q \<Longrightarrow> 0 \<le> q"
  by (cases x; cases y) (auto simp: nonneg_def signed_inf_def split: if_splits)

lemma fdiv_le_one: "nonneg y \<Longrightarrow> fle x y \<Longrightarrow> fdiv x y = Fin q \<Longrightarrow> q \<le> 1"
  by (cases x; cases y) (auto simp: nonneg_def signed_inf_def divide_le_eq split: if_splits)

section \<open>Supplier scorer: reliability percentage and band\<close>

lemma score_pct [simp]: "reliability_pct (score s) = pct_of s"
  by (simp add: score_def)

lemma score_band [simp]: "reliability_band (score s) = cut (pct_of s)"
  by (simp add: score_def)

lemma score_name [simp]: "supplier_name (score s) = supplier_name s"
  by (simp add: score_def)

lemma score_lead [simp]: "avg_lead_time_days (score s) = avg_lead_time_days s"
  by (simp add: score_def)

lemma pct_of_cases:
  "pct_of s =
     (case fdiv (on_time_deliveries s) (total_deliveries s) of
        Fin q \<Rightarrow> Fin (q * 100) | _ \<Rightarrow> Fin 0)"
  by (simp add: pct_of_def split: fnum.splits)

lemma pct_of_row [simp]:
  "b \<noteq> 0 \<Longrightarrow> pct_of (supplier_row sid name b a l) = Fin (a / b * 100)"
  by (simp add: pct_of_def supplier_row_def)

text \<open>
  C1, as stated, fails: nothing clamps the percentage. A supplier with 30 on-time
  deliveries out of 20 gets 150.
\<close>

theorem reliability_pct_exceeds_100:
  "reliability_pct (score over_delivered) = Fin 150
   \<and> \<not> fle (reliability_pct (score over_delivered)) (Fin 100)"
  by (simp add: over_delivered_def)

text \<open>
  C1, amended: for a supplier row whose two delivery counts are non-negative or missing,
  the percentage is at least 0, and it is at most 100 whenever the on-time count does not
  exceed the total.
\<close>

theorem reliability_pct_range:
  assumes "nonneg (on_time_deliveries s)" and "nonneg (total_deliveries s)"
  shows "fle (Fin 0) (reliability_pct (score s))
    \<and> (fle (on_time_deliveries s) (total_deliveries s)
         \<longrightarrow> fle (reliability_pct (score s)) (Fin 100))"
  using assms fdiv_nonneg[OF assms] fdiv_le_one[OF assms(2)]
  by (auto simp: pct_of_cases split: fnum.splits)

theorem reliability_pct_range_witness:
  "nonneg (on_time_deliveries supplier_b) \<and> nonneg (total_deliveries supplier_b)
   \<and> fle (on_time_deliveries supplier_b) (total_deliveries supplier_b)
   \<and> fle (Fin 0) (reliability_pct (score supplier_b))
   \<and> fle (reliability_pct (score supplier_b)) (Fin 100)"
  using reliability_pct_range[of supplier_b]
  by (simp add: supplier_b_def supplier_row_def nonneg_def)

text \<open>
  C2, as stated, fails below the lowest bin: a supplier row with -1 on-time deliveries
  out of 20 has the percentage -5, which is at most 74.99 and gets no band.
\<close>

theorem negative_pct_has_no_band:
  "reliability_pct (score negative_count) = Fin (- 5)
   \<and> reliability_band (score negative_count) = None
   \<and> reliability_band (score negative_count) \<noteq> Some Risk"
  by (simp add: negative_count_def cut_def)

text \<open>
  C2, amended: on every supplier row, a percentage above -0.1 and at most 74.99 is
  banded Risk (so is every percentage of at most 74.99 that comes from delivery counts
  that are non-negative or missing), one from 75 to 89.99 Watch and one from 90 to 100
  Reliable; a percentage of at most -0.1 gets no band; 75 itself is Watch and 90 itself
  is Reliable.
\<close>

theorem reliability_band_buckets:
  "(\<exists>v. reliability_pct (score s) = Fin v
      \<and> (- 0.1 < v \<and> v \<le> 74.99 \<longrightarrow> reliability_band (score s) = Some Risk)
      \<and> (nonneg (on_time_deliveries s) \<and> nonneg (total_deliveries s) \<and> v \<le> 74.99
           \<longrightarrow> reliability_band (score s) = Some Risk)
      \<and> (75 \<le> v \<and> v \<le> 89.99 \<longrightarrow> reliability_band (score s) = Some Watch)
      \<and> (90 \<le> v \<and> v \<le> 100 \<longrightarrow> reliability_band (score s) = Some Reliable)
      \<and> (v \<le> - 0.1 \<longrightarrow> reliability_band (score s) = None))
   \<and> cut (Fin 75) = Some Watch \<and> cut (Fin 90) = Some Reliable"
proof -
  have "\<exists>v. pct_of s = Fin v"
    by (simp add: pct_of_cases split: fnum.splits)
  then obtain v where v: "pct_of s = Fin v" ..
  have "0 \<le> v" if "nonneg (on_time_deliveries s)" and "nonneg (total_deliveries s)"
    using fdiv_nonneg[OF that] v by (auto simp: pct_of_cases split: fnum.splits)
  then show ?thesis using v by (auto simp: cut_def)
qed

theorem reliability_band_buckets_witness:
  "reliability_band (score supplier_c) = Some Risk
   \<and> reliability_band (score (simulate_delay supplier_b)) = Some Watch
   \<and> reliability_band (score supplier_b) = Some Reliable
   \<and> reliability_band (score negative_count) = None"
  using reliability_band_buckets[of supplier_c]
        reliability_band_buckets[of "simulate_delay supplier_b"]
        reliability_band_buckets[of supplier_b]
        reliability_band_buckets[of negative_count]
  by (simp add: supplier_b_def supplier_c_def negative_count_def supplier_row_def
      simulate_delay_def nonneg_def fsub_def pct_of_def)

text \<open>
  C3: the percentage is always a finite number; it is on-time / total times 100 when
  both counts are finite and the total is not zero, and exactly 0 when the total is zero
  or missing, as whenever the quotient is not finite.
\<close>

theorem reliability_pct_division:
  "(\<exists>r. reliability_pct (score s) = Fin r)
   \<and> (\<forall>a b. on_time_deliveries s = Fin a \<and> total_deliveries s = Fin b \<and> b \<noteq> 0
        \<longrightarrow> reliability_pct (score s) = Fin (a / b * 100))
   \<and> (total_deliveries s = Fin 0 \<or> total_deliveries s = NaN
        \<longrightarrow> reliability_pct (score s) = Fin 0)
   \<and> ((\<forall>q. fdiv (on_time_deliveries s) (total_deliveries s) \<noteq> Fin q)
        \<longrightarrow> reliability_pct (score s) = Fin 0)"
  by (cases "on_time_deliveries s"; cases "total_deliveries s")
     (auto simp: pct_of_def signed_inf_def)

theorem reliability_pct_division_witness:
  "reliability_pct (score supplier_b) = Fin 90
   \<and> total_deliveries idle_supplier = Fin 0
   \<and> reliability_pct (score idle_supplier) = Fin 0"
  using reliability_pct_division[of supplier_b] reliability_pct_division[of idle_supplier]
  by (simp add: supplier_b_def idle_supplier_def supplier_row_def)

text \<open>
  C9: with a positive total and more on-time deliveries than that, the percentage exceeds
  100 and the row gets no band.
\<close>

theorem over_delivery_has_no_band:
  assumes "on_time_deliveries s = Fin a" and "total_deliveries s = Fin b"
    and "0 < b" and "b < a"
  shows "(\<exists>v. reliability_pct (score s) = Fin v \<and> 100 < v) \<and> reliability_band (score s) = None"
proof -
  from assms have "1 < a / b" by (simp add: less_divide_eq)
  then have "1 * 100 < a / b * 100" by (rule mult_strict_right_mono) simp
  then have v: "100 < a / b * 100" by simp
  have p: "pct_of s = Fin (a / b * 100)" using assms by (simp add: pct_of_def)
  show ?thesis using v unfolding score_pct score_band p by (simp add: cut_def)
qed

theorem over_delivery_has_no_band_witness:
  "on_time_deliveries over_delivered = Fin 30 \<and> total_deliveries over_delivered = Fin 20
   \<and> (\<exists>v. reliability_pct (score over_delivered) = Fin v \<and> 100 < v)
   \<and> reliability_band (score over_delivered) = None"
  using over_delivery_has_no_band[of over_delivered 30 20]
  by (simp add: over_delivered_def supplier_row_def)

section \<open>Inventory health engine: the derived columns\<close>

text \<open>
  Every statement below about \<open>health\<close> is for an arbitrary \<open>cow\<close>: it holds whether or
  not the in-place \<^verbatim>\<open>fillna\<close> calls reach the table.
\<close>

lemma health_fields:
  assumes "health cow rm lm i = Some r"
  shows "material r = material i"
    and "current_stock r = current_stock_col cow i"
    and "safety_stock r = safety_stock i"
    and "primary_supplier r = primary_supplier i"
    and "backup_supplier r = backup_supplier i"
    and "lead_time_days r = lead_time_days_col lm i"
    and "primary_reliability r = primary_reliability_col rm i"
    and "backup_reliability r = backup_reliability_col rm i"
    and "days_of_cover r = days_of_cover_col i"
    and "reorder_point r = reorder_point_col cow lm i"
    and "reorder_qty_col (reorder_point_col cow lm i) (current_stock_col cow i) = Some (reorder_qty r)"
    and "stock_risk r = stock_risk_col (current_stock_col cow i) (safety_stock i)"
    and "supply_risk r = supply_risk_col (primary_reliability_col rm i)"
    and "overall_risk r = overall_risk_col (stock_risk r) (supply_risk r)"
  using assms by (auto simp: health_def Let_def split: option.splits)

lemma health_Some:
  "reorder_qty_col (reorder_point_col cow lm i) (current_stock_col cow i) = Some q
   \<Longrightarrow> \<exists>r. health cow rm lm i = Some r"
  by (simp add: health_def Let_def)

lemma int64_cast_id: "0 \<le> k \<Longrightarrow> k < 2 ^ 63 \<Longrightarrow> int64_cast k = k"
  by (simp add: int64_cast_def)

lemma int64_cast_zero [simp]: "int64_cast 0 = 0"
  by (simp add: int64_cast_def)

lemma reorder_qty_col_finite:
  assumes "round_half_even (p - c) < 2 ^ 63"
  shows "reorder_qty_col (Fin p) (Fin c) = Some (spec_reorder_qty p c)"
proof (cases "p - c \<le> 0")
  case True
  then have "max 0 (p - c) = 0" by simp
  moreover have "round_half_even (p - c) \<le> 0" using True by (rule round_half_even_nonpos)
  ultimately show ?thesis
    by (simp add: reorder_qty_col_def fsub_def spec_reorder_qty_def
        del: max.absorb1 max.absorb3)
next
  case False
  then have m: "max 0 (p - c) = p - c" by simp
  have n: "0 \<le> round_half_even (p - c)"
    using False by (intro round_half_even_nonneg) simp
  have "int64_cast (round_half_even (p - c)) = round_half_even (p - c)"
    using n assms by (rule int64_cast_id)
  then show ?thesis
    using m n by (simp add: reorder_qty_col_def fsub_def spec_reorder_qty_def)
qed

lemma spec_reorder_qty_nonneg: "0 \<le> spec_reorder_qty p c"
  by (simp add: spec_reorder_qty_def)

lemma reorder_qty_col_zero: "reorder_qty_col rp cs = Some q \<Longrightarrow> fle rp cs \<Longrightarrow> q = 0"
  by (cases rp; cases cs) (auto simp: reorder_qty_col_def fsub_def max_def)

lemma reorder_qty_col_not_nan:
  "reorder_qty_col rp cs = Some q \<Longrightarrow> \<not> isna rp \<and> \<not> isna cs"
  by (cases rp; cases cs) (auto simp: reorder_qty_col_def fsub_def)

lemma lead_time_fin:
  "not_inf (lead_time_days i) \<Longrightarrow> not_inf (series_map lm (primary_supplier i))
   \<Longrightarrow> is_fin (lead_time_days_col lm i)"
  by (cases "series_map lm (primary_supplier i)"; cases "lead_time_days i")
     (auto simp: lead_time_days_col_def)

lemma finite_cells_columns:
  assumes "finite_cells lm i"
  shows "\<exists>p c. reorder_point_col cow lm i = Fin p \<and> current_stock_col cow i = Fin c"
proof -
  from assms have "is_fin (lead_time_days_col lm i)"
    by (intro lead_time_fin) (simp_all add: finite_cells_def)
  then obtain l where l: "lead_time_days_col lm i = Fin l"
    by (cases "lead_time_days_col lm i") simp_all
  from assms obtain c t u where
    "current_stock i = Fin c" "safety_stock i = Fin t" "avg_daily_usage i = Fin u"
    by (cases "current_stock i"; cases "safety_stock i"; cases "avg_daily_usage i")
       (simp_all add: finite_cells_def)
  then show ?thesis
    by (simp add: reorder_point_col_def current_stock_col_def l)
qed

subsection \<open>The example tables, evaluated\<close>

lemma trunc_numeral [simp]: "trunc (numeral n) = numeral n"
  by (simp add: trunc_def)

lemma show_int_0: "show_int 0 = ''0''"
  by code_simp

lemma show_int_9: "show_int 9 = ''9''"
  by code_simp

lemma show_int_35: "show_int 35 = ''35''"
  by code_simp

lemma roster_rel:
  "rel_map roster =
     [''Supplier A'' \<mapsto> Fin 95, ''Supplier B'' \<mapsto> Fin 90, ''Supplier C'' \<mapsto> Fin 50]"
  by (simp add: roster_def rel_map_def dict_zip_def supplier_a_def supplier_b_def
      supplier_c_def supplier_row_def pct_of_def)

lemma roster_lt:
  "lt_map roster =
     [''Supplier A'' \<mapsto> Fin 4, ''Supplier B'' \<mapsto> Fin 2, ''Supplier C'' \<mapsto> Fin 6]"
  by (simp add: roster_def lt_map_def dict_zip_def supplier_a_def supplier_b_def
      supplier_c_def supplier_row_def)

lemmas column_defs =
  primary_reliability_col_def backup_reliability_col_def lead_time_days_col_def
  days_of_cover_col_def reorder_point_col_def current_stock_col_def reorder_qty_col_def
  stock_risk_col_def supply_risk_col_def overall_risk_col_def series_map_def fsub_def
  round_half_even_def inventory_row_def Let_def int64_cast_def

lemma health_flour:
  "health cow (rel_map roster) (lt_map roster) flour =
     Some \<lparr>material = ''Flour'', current_stock = Fin 50, safety_stock = Fin 20,
           avg_daily_usage = Fin 10, primary_supplier = ''Supplier A'',
           backup_supplier = ''Supplier B'', lead_time_days = Fin 3,
           primary_reliability = Fin 95, backup_reliability = Fin 90,
           days_of_cover = Fin 5, reorder_point = Fin 50, reorder_qty = 0,
           stock_risk = ''OK'', supply_risk = ''OK'', overall_risk = label_ok\<rparr>"
  by (simp add: health_def roster_rel roster_lt flour_def column_defs)

lemma health_flour_short:
  "health cow (rel_map roster) (lt_map roster) flour_short =
     Some \<lparr>material = ''Flour'', current_stock = Fin 49.8, safety_stock = Fin 20,
           avg_daily_usage = Fin 10, primary_supplier = ''Supplier A'',
           backup_supplier = ''Supplier B'', lead_time_days = Fin 3,
           primary_reliability = Fin 95, backup_reliability = Fin 90,
           days_of_cover = Fin 4.98, reorder_point = Fin 50, reorder_qty = 0,
           stock_risk = ''OK'', supply_risk = ''OK'', overall_risk = label_ok\<rparr>"
  by (simp add: health_def roster_rel roster_lt flour_short_def column_defs)

lemma health_flour_spike:
  "health cow (rel_map roster) (lt_map roster) (simulate_demand_spike flour) =
     Some \<lparr>material = ''Flour'', current_stock = Fin 50, safety_stock = Fin 20,
           avg_daily_usage = Fin 13, primary_supplier = ''Supplier A'',
           backup_supplier = ''Supplier B'', lead_time_days = Fin 3,
           primary_reliability = Fin 95, backup_reliability = Fin 90,
           days_of_cover = Fin (50 / 13), reorder_point = Fin 59, reorder_qty = 9,
           stock_risk = ''OK'', supply_risk = ''OK'', overall_risk = label_ok\<rparr>"
  by (simp add: health_def roster_rel roster_lt flour_def simulate_demand_spike_def column_defs)

lemma health_sugar:
  "health cow (rel_map roster) (lt_map roster) sugar =
     Some \<lparr>material = ''Sugar'', current_stock = Fin 10, safety_stock = Fin 15,
           avg_daily_usage = Fin 5, primary_supplier = ''Supplier C'',
           backup_supplier = ''Supplier B'', lead_time_days = Fin 6,
           primary_reliability = Fin 50, backup_reliability = Fin 90,
           days_of_cover = Fin 2, reorder_point = Fin 45, reorder_qty = 35,
           stock_risk = ''Low Stock'', supply_risk = ''Unreliable Supplier'',
           overall_risk = label_risk\<rparr>"
  by (simp add: health_def roster_rel roster_lt sugar_def column_defs)

lemma health_salt:
  "map_option reorder_qty (health cow (rel_map roster) (lt_map roster) salt)
     = Some (- 9223372036854775808)"
  by (simp add: health_def roster_rel roster_lt salt_def column_defs)

lemma health_yeast:
  "health cow (rel_map roster) (lt_map roster) yeast =
     Some \<lparr>material = ''Yeast'', current_stock = Fin 5, safety_stock = Fin 2,
           avg_daily_usage = Fin 1, primary_supplier = ''Supplier Z'',
           backup_supplier = ''Supplier A'', lead_time_days = Fin 5,
           primary_reliability = Fin 0, backup_reliability = Fin 95,
           days_of_cover = Fin 5, reorder_point = Fin 7, reorder_qty = 2,
           stock_risk = ''OK'', supply_risk = ''Unreliable Supplier'',
           overall_risk = label_risk\<rparr>"
  by (simp add: health_def roster_rel roster_lt yeast_def column_defs)

section \<open>Inventory health engine: the claims on the derived columns\<close>

text \<open>
  C4, as stated, fails for a large gap: the cast to a 64-bit integer of a gap of
  \<open>10\<^sup>1\<^sup>9\<close> units (a safety stock of that size, no stock) gives the least 64-bit
  integer, a negative reorder quantity, where the formula gives \<open>10\<^sup>1\<^sup>9\<close>. This is so
  under either pandas behaviour.
\<close>

theorem reorder_qty_negative:
  "map_option reorder_qty (health False (rel_map roster) (lt_map roster) salt)
     = Some (- 9223372036854775808)
   \<and> map_option reorder_qty (health True (rel_map roster) (lt_map roster) salt)
     = Some (- 9223372036854775808)
   \<and> spec_reorder_qty 10000000000000000000 0 = 10000000000000000000"
  by (simp add: health_salt spec_reorder_qty_def round_half_even_def)

text \<open>
  C4, amended: the reorder point and the current stock of a row are finite whenever its
  stock, safety stock and usage are finite and no lead time is infinite; for a row whose
  reorder point and current stock are finite and whose rounded gap is below \<open>2\<^sup>6\<^sup>3\<close>,
  the engine returns a row whose reorder quantity is
  max(0, round(reorder_point - current_stock)), ties rounded to even, hence at least 0;
  and on every row the engine returns, the quantity is 0 when the current stock is at
  least the reorder point. This holds under either pandas behaviour.
\<close>

theorem reorder_qty_formula:
  "(finite_cells lm i \<longrightarrow>
      (\<exists>p c. reorder_point_col cow lm i = Fin p \<and> current_stock_col cow i = Fin c))
   \<and> (\<forall>p c. reorder_point_col cow lm i = Fin p \<and> current_stock_col cow i = Fin c
          \<and> round_half_even (p - c) < 2 ^ 63 \<longrightarrow>
        (\<exists>r. health cow rm lm i = Some r \<and> reorder_point r = Fin p
            \<and> current_stock r = Fin c \<and> reorder_qty r = spec_reorder_qty p c
            \<and> 0 \<le> reorder_qty r))
   \<and> (\<forall>r. health cow rm lm i = Some r \<and> fle (reorder_point r) (current_stock r)
          \<longrightarrow> reorder_qty r = 0)"
proof (intro conjI impI allI)
  assume "finite_cells lm i"
  then show "\<exists>p c. reorder_point_col cow lm i = Fin p \<and> current_stock_col cow i = Fin c"
    by (rule finite_cells_columns)
next
  fix p c
  assume a: "reorder_point_col cow lm i = Fin p \<and> current_stock_col cow i = Fin c
    \<and> round_half_even (p - c) < 2 ^ 63"
  then have q: "reorder_qty_col (reorder_point_col cow lm i) (current_stock_col cow i)
      = Some (spec_reorder_qty p c)"
    by (simp add: reorder_qty_col_finite)
  then obtain r where r: "health cow rm lm i = Some r"
    using health_Some by blast
  show "\<exists>r. health cow rm lm i = Some r \<and> reorder_point r = Fin p
      \<and> current_stock r = Fin c \<and> reorder_qty r = spec_reorder_qty p c
      \<and> 0 \<le> reorder_qty r"
    using health_fields(2,10,11)[OF r] a q r spec_reorder_qty_nonneg[of p c] by auto
next
  fix r assume "health cow rm lm i = Some r \<and> fle (reorder_point r) (current_stock r)"
  then show "reorder_qty r = 0"
    using health_fields(2,10,11)[of cow rm lm i r] by (auto intro: reorder_qty_col_zero)
qed

theorem reorder_qty_formula_witness:
  "finite_cells (lt_map roster) sugar
   \<and> (\<exists>r. health True (rel_map roster) (lt_map roster) sugar = Some r
         \<and> reorder_qty r = spec_reorder_qty 45 10 \<and> reorder_qty r = 35)
   \<and> (\<exists>r. health True (rel_map roster) (lt_map roster) flour = Some r
         \<and> fle (reorder_point r) (current_stock r) \<and> reorder_qty r = 0)"
proof -
  have fi: "finite_cells (lt_map roster) sugar"
    by (simp add: finite_cells_def sugar_def inventory_row_def roster_lt series_map_def)
  have cols: "reorder_point_col True (lt_map roster) sugar = Fin 45"
    "current_stock_col True sugar = Fin 10"
    by (simp_all add: roster_lt sugar_def column_defs)
  have small: "round_half_even (45 - 10) < 2 ^ 63"
    by (simp add: round_half_even_def)
  show ?thesis
    using fi cols small
      reorder_qty_formula[of "lt_map roster" sugar True "rel_map roster"]
      reorder_qty_formula[of "lt_map roster" flour True "rel_map roster"]
    by (simp add: health_sugar[of True] health_flour[of True] spec_reorder_qty_def
        round_half_even_def)
qed

text \<open>
  C5: the effective lead time is the record's own value when that is present and
  positive, otherwise the primary supplier's average lead time from the map, otherwise
  (no such supplier in the map, or its lead time missing) 5.
\<close>

theorem lead_time_fallback:
  "lead_time_days_col lm i = spec_lead_time (lead_time_days i) (lm (primary_supplier i))
   \<and> (\<forall>r. health cow rm lm i = Some r \<longrightarrow>
         lead_time_days r = spec_lead_time (lead_time_days i) (lm (primary_supplier i)))"
proof -
  have "lead_time_days_col lm i = spec_lead_time (lead_time_days i) (lm (primary_supplier i))"
    by (cases "lead_time_days i")
       (auto simp: lead_time_days_col_def spec_lead_time_def series_map_def fillna_isna
             split: option.splits)
  then show ?thesis using health_fields(6) by auto
qed

theorem lead_time_fallback_witness:
  "(\<exists>r. health False (rel_map roster) (lt_map roster) flour = Some r \<and> lead_time_days r = Fin 3)
   \<and> (\<exists>r. health False (rel_map roster) (lt_map roster) sugar = Some r \<and> lead_time_days r = Fin 6)
   \<and> (\<exists>r. health False (rel_map roster) (lt_map roster) yeast = Some r \<and> lead_time_days r = Fin 5)"
  using lead_time_fallback[of "lt_map roster" flour False "rel_map roster"]
        lead_time_fallback[of "lt_map roster" sugar False "rel_map roster"]
        lead_time_fallback[of "lt_map roster" yeast False "rel_map roster"]
  by (simp add: health_flour[of False] health_sugar[of False] health_yeast[of False])

text \<open>
  C7: the overall risk is Risk exactly when the stock risk is Low Stock or the supply
  risk is Unreliable Supplier, and OK otherwise; the supply risk is Unreliable Supplier
  exactly when the primary reliability is below 75, and the stock risk is Low Stock
  exactly when the current stock is below the safety stock.
\<close>

theorem overall_risk_rule:
  assumes "health cow rm lm i = Some r"
  shows "(overall_risk r = label_risk \<longleftrightarrow>
            stock_risk r = ''Low Stock'' \<or> supply_risk r = ''Unreliable Supplier'')
       \<and> (overall_risk r \<noteq> label_risk \<longrightarrow> overall_risk r = label_ok)
       \<and> (supply_risk r = ''Unreliable Supplier'' \<longleftrightarrow> flt (primary_reliability r) (Fin 75))
       \<and> (stock_risk r = ''Low Stock'' \<longleftrightarrow> flt (current_stock r) (safety_stock r))"
  using health_fields(2,3,7,12,13,14)[OF assms]
  by (auto simp: overall_risk_col_def stock_risk_col_def supply_risk_col_def
      label_risk_def label_ok_def)

theorem overall_risk_rule_witness:
  "(\<exists>r. health False (rel_map roster) (lt_map roster) sugar = Some r
        \<and> stock_risk r = ''Low Stock'' \<and> overall_risk r = label_risk)
   \<and> (\<exists>r. health False (rel_map roster) (lt_map roster) yeast = Some r
        \<and> supply_risk r = ''Unreliable Supplier'' \<and> overall_risk r = label_risk)
   \<and> (\<exists>r. health False (rel_map roster) (lt_map roster) flour = Some r
        \<and> overall_risk r \<noteq> label_risk \<and> overall_risk r = label_ok)"
  using overall_risk_rule[OF health_sugar[of False]] overall_risk_rule[OF health_yeast[of False]]
        overall_risk_rule[OF health_flour[of False]]
  by (simp add: health_sugar[of False] health_yeast[of False] health_flour[of False])

section \<open>Recommendation text\<close>

lemma fillna_not_nan [simp]: "\<not> isna (fillna d x)"
  by (cases x) simp_all

lemma flt_or_fle: "\<not> isna x \<Longrightarrow> \<not> isna y \<Longrightarrow> flt x y \<or> fle y x"
  by (cases x; cases y) auto

lemma flt_not_fle: "flt x y \<Longrightarrow> \<not> fle y x"
  by (cases x; cases y) auto

lemma join_prefix: "prefix x (join sep (x # xs))"
  by (cases xs) simp_all

lemma recommend_prefix:
  "reorder_check r = [s] \<Longrightarrow> prefix s (recommend f g r) \<and> s \<in> set (recs f g r)"
  by (simp add: recommend_def recs_def join_prefix)

lemma other_checks_not_reorder:
  "s \<in> set (reliability_check r @ cover_check f g r) \<Longrightarrow> \<not> prefix ''Reorder '' s"
  by (auto simp: reliability_check_def cover_check_def split: if_splits)

text \<open>
  C6: when the current stock is below the reorder point, the recommendation starts with
  the reorder sentence, whose target is the primary supplier when the backup is not more
  reliable and the backup supplier's name followed by " (backup)" when it is; when the
  current stock is at least the reorder point, no sentence of the recommendation is a
  reorder sentence. The two pairs of cases are exhaustive.
\<close>

theorem reorder_sentence_target:
  assumes "health cow rm lm i = Some r"
  shows "(flt (current_stock r) (reorder_point r)
            \<and> fle (backup_reliability r) (primary_reliability r)
          \<longrightarrow> prefix (reorder_sentence (reorder_qty r) (material r) (primary_supplier r))
                (recommend f g r)
              \<and> reorder_sentence (reorder_qty r) (material r) (primary_supplier r)
                  \<in> set (recs f g r))
       \<and> (flt (current_stock r) (reorder_point r)
            \<and> flt (primary_reliability r) (backup_reliability r)
          \<longrightarrow> prefix (reorder_sentence (reorder_qty r) (material r)
                        (backup_supplier r @ '' (backup)''))
                (recommend f g r)
              \<and> reorder_sentence (reorder_qty r) (material r)
                    (backup_supplier r @ '' (backup)'') \<in> set (recs f g r))
       \<and> (fle (reorder_point r) (current_stock r)
          \<longrightarrow> (\<forall>s \<in> set (recs f g r). \<not> prefix ''Reorder '' s))
       \<and> (fle (backup_reliability r) (primary_reliability r)
            \<or> flt (primary_reliability r) (backup_reliability r))
       \<and> (flt (current_stock r) (reorder_point r)
            \<or> fle (reorder_point r) (current_stock r))"
proof -
  have primary: "prefix (reorder_sentence (reorder_qty r) (material r) (primary_supplier r))
      (recommend f g r)
    \<and> reorder_sentence (reorder_qty r) (material r) (primary_supplier r) \<in> set (recs f g r)"
    if "flt (current_stock r) (reorder_point r)
      \<and> fle (backup_reliability r) (primary_reliability r)"
  proof -
    from that have "reorder_check r
        = [reorder_sentence (reorder_qty r) (material r) (primary_supplier r)]"
      using flt_not_fle[of "primary_reliability r" "backup_reliability r"]
      by (auto simp: reorder_check_def)
    then show ?thesis by (rule recommend_prefix)
  qed
  have backup: "prefix (reorder_sentence (reorder_qty r) (material r)
        (backup_supplier r @ '' (backup)'')) (recommend f g r)
    \<and> reorder_sentence (reorder_qty r) (material r) (backup_supplier r @ '' (backup)'')
        \<in> set (recs f g r)"
    if "flt (current_stock r) (reorder_point r)
      \<and> flt (primary_reliability r) (backup_reliability r)"
  proof -
    from that have "reorder_check r
        = [reorder_sentence (reorder_qty r) (material r) (backup_supplier r @ '' (backup)'')]"
      by (simp add: reorder_check_def)
    then show ?thesis by (rule recommend_prefix)
  qed
  have none: "\<forall>s \<in> set (recs f g r). \<not> prefix ''Reorder '' s"
    if "fle (reorder_point r) (current_stock r)"
  proof -
    from that have "reorder_check r = []"
      using flt_not_fle[of "current_stock r" "reorder_point r"]
      by (auto simp: reorder_check_def)
    then show ?thesis
      using other_checks_not_reorder[of _ r f g] by (simp add: recs_def)
  qed
  have rel: "fle (backup_reliability r) (primary_reliability r)
    \<or> flt (primary_reliability r) (backup_reliability r)"
    using flt_or_fle[of "primary_reliability r" "backup_reliability r"]
    by (auto simp: health_fields(7,8)[OF assms] primary_reliability_col_def
        backup_reliability_col_def)
  have stock: "flt (current_stock r) (reorder_point r)
    \<or> fle (reorder_point r) (current_stock r)"
    using flt_or_fle[of "current_stock r" "reorder_point r"]
      reorder_qty_col_not_nan[OF health_fields(11)[OF assms]]
    by (auto simp: health_fields(2,10)[OF assms])
  from primary backup none rel stock show ?thesis by blast
qed

lemmas check_defs =
  recommend_def recs_def reorder_check_def reliability_check_def cover_check_def
  reorder_sentence_def

theorem reorder_sentence_target_witness:
  "(\<exists>r. health False (rel_map roster) (lt_map roster) (simulate_demand_spike flour) = Some r
        \<and> prefix ''Reorder 9 units of Flour from Supplier A.'' (recommend fmt_1f fmt_1f r))
   \<and> (\<exists>r. health False (rel_map roster) (lt_map roster) sugar = Some r
        \<and> prefix ''Reorder 35 units of Sugar from Supplier B (backup).'' (recommend fmt_1f fmt_1f r))
   \<and> (\<exists>r. health False (rel_map roster) (lt_map roster) flour = Some r
        \<and> fle (reorder_point r) (current_stock r)
        \<and> (\<forall>s \<in> set (recs fmt_1f fmt_1f r). \<not> prefix ''Reorder '' s))"
  using reorder_sentence_target[OF health_flour_spike[of False], of fmt_1f fmt_1f]
        reorder_sentence_target[OF health_sugar[of False], of fmt_1f fmt_1f]
        reorder_sentence_target[OF health_flour[of False], of fmt_1f fmt_1f]
  by (simp add: health_flour_spike[of False] health_sugar[of False] health_flour[of False]
      reorder_sentence_def
      show_int_9 show_int_35)

text \<open>
  C10: some inventory row has a gap between reorder point and current stock that is
  positive and below one half; the reorder check fires, the quantity is 0, and the
  recommendation is the sentence "Reorder 0 units of Flour from Supplier A.".
\<close>

theorem reorder_zero_units:
  "\<exists>rm lm i r p c. health cow rm lm i = Some r
      \<and> reorder_point r = Fin p \<and> current_stock r = Fin c \<and> 0 < p - c \<and> p - c < 1 / 2
      \<and> flt (current_stock r) (reorder_point r) \<and> reorder_qty r = 0
      \<and> (\<forall>f g. recommend f g r
            = reorder_sentence (reorder_qty r) (material r) (primary_supplier r))
      \<and> reorder_sentence (reorder_qty r) (material r) (primary_supplier r)
          = ''Reorder 0 units of Flour from Supplier A.''"
proof -
  obtain r where r: "health cow (rel_map roster) (lt_map roster) flour_short = Some r"
    and cols: "reorder_point r = Fin 50" "current_stock r = Fin 49.8" "reorder_qty r = 0"
    and sent: "\<forall>f g. recommend f g r
        = reorder_sentence (reorder_qty r) (material r) (primary_supplier r)"
      "reorder_sentence (reorder_qty r) (material r) (primary_supplier r)
        = ''Reorder 0 units of Flour from Supplier A.''"
    using health_flour_short by (simp add: check_defs show_int_0)
  have gap: "0 < (50::real) - 49.8" "(50::real) - 49.8 < 1 / 2"
    by simp_all
  have fires: "flt (current_stock r) (reorder_point r)"
    by (simp add: cols)
  from r cols sent gap fires show ?thesis by blast
qed

section \<open>Validation of the two tables\<close>

lemma missing_cols_empty: "missing_cols req t = [] \<longleftrightarrow> set req \<subseteq> set (columns t)"
  by (auto simp: missing_cols_def filter_empty_conv)

text \<open>
  C8, as stated, fails in one part: the error does not list the missing columns. A
  table without \<open>supplier_id\<close> and a table without \<open>supplier_name\<close> stop the run with
  the same fixed message.
\<close>

theorem error_does_not_list_columns:
  "validate no_id_table inventory_table
     = Some (Stop ''Please provide valid CSVs with required columns (see sidebar).'')
   \<and> validate no_name_table inventory_table
     = Some (Stop ''Please provide valid CSVs with required columns (see sidebar).'')
   \<and> missing_cols required_sup_cols no_id_table = [''supplier_id'']
   \<and> missing_cols required_sup_cols no_name_table = [''supplier_name'']"
  by (simp add: validate_def missing_cols_def no_id_table_def no_name_table_def
      inventory_table_def required_sup_cols_def required_inv_cols_def)

text \<open>
  C8, amended: if a required column is missing from either table, the run stops with
  the fixed error message, whatever the rows of the two tables are and whatever the
  simulation switches; it returns no result. Without a missing column it does not stop
  there.
\<close>

theorem missing_column_stops_run:
  "(missing_cols required_sup_cols stab \<noteq> [] \<or> missing_cols required_inv_cols itab \<noteq> []
     \<longrightarrow> run cow d s f g (stab\<lparr>rows := rs\<rparr>) (itab\<lparr>rows := ri\<rparr>)
          = Inl (Stop ''Please provide valid CSVs with required columns (see sidebar).''))
   \<and> (missing_cols required_sup_cols stab = [] \<and> missing_cols required_inv_cols itab = []
     \<longrightarrow> (\<forall>m. run cow d s f g stab itab \<noteq> Inl (Stop m)))"
  by (auto simp: run_def validate_def missing_cols_empty Let_def split: option.splits)

theorem missing_column_stops_run_witness:
  "missing_cols required_sup_cols no_id_table \<noteq> []
   \<and> run False True True fmt_1f fmt_1f no_id_table inventory_table
       = Inl (Stop ''Please provide valid CSVs with required columns (see sidebar).'')"
  using missing_column_stops_run[of no_id_table inventory_table False True True fmt_1f fmt_1f "[]"
      "[flour, sugar, yeast]"]
  by (simp add: missing_cols_def no_id_table_def inventory_table_def required_sup_cols_def)

end
